theory Spec2Isabelle
  imports Complex_Main "HOL-Library.Multiset" "HOL-Library.Sublist" "HOL-Library.AList"
begin

section \<open>Exceptions and values shared by the modules\<close>

text \<open>
  The Python exceptions that the modelled functions can raise. \<open>ExternalError\<close> stands for
  whatever an external library (DeepFace, base64, the database driver) raises.
\<close>

datatype py_exception = ValueError | KeyError | TypeError | AttributeError | ExternalError

text \<open>
  A numpy \<open>float64\<close>. Arithmetic is modelled by the exact reals (rounding is not
  modelled); the one non-real value the modelled code can produce, \<open>nan\<close> from \<open>0.0 / 0.0\<close>,
  is a constructor of its own.
\<close>

datatype np_float = NaN | Val real

section \<open>ai\_engine.py\<close>

subsection \<open>AIEngine.extract\_faces\<close>

text \<open>
  One element of the list returned by \<open>DeepFace.represent\<close>: a dict whose keys
  \<open>embedding\<close> and \<open>facial_area\<close> may be present or not; \<open>facial_area\<close> is itself a dict
  \<open>{x, y, w, h}\<close>, kept as an association list.
\<close>

record deepface_face =
  res_embedding :: "real list option"
  res_facial_area :: "(string \<times> int) list option"

text \<open>The outcome of the call \<open>DeepFace.represent(img_path, ..., enforce_detection=False)\<close>.\<close>

datatype deepface_outcome = Raises py_exception | Returns "deepface_face list"

text \<open>An element of the list \<open>extract_faces\<close> returns: \<open>{"embedding": ..., "box": ...}\<close>.\<close>

record face =
  embedding :: "real list"
  box :: "(string \<times> int) list"

text \<open>\<open>d.get(k, default)\<close> on a dict kept as an association list.\<close>

definition dict_get :: "(string \<times> 'v) list \<Rightarrow> string \<Rightarrow> 'v \<Rightarrow> 'v" where
  "dict_get d k dflt = (case map_of d k of None \<Rightarrow> dflt | Some v \<Rightarrow> v)"

text \<open>
  The \<open>for res in results\<close> loop. \<open>res.get('facial_area', {}).get('w', 0) > 0\<close> decides
  whether the face is kept; \<open>res['embedding']\<close> and \<open>res['facial_area']\<close> raise \<open>KeyError\<close>
  on a missing key.
\<close>

fun extract_loop :: "deepface_face list \<Rightarrow> py_exception + face list" where
  "extract_loop [] = Inr []"
| "extract_loop (res # results) =
     (if dict_get (case res_facial_area res of None \<Rightarrow> [] | Some fa \<Rightarrow> fa) ''w'' 0 > 0
      then (case res_embedding res of
              None \<Rightarrow> Inl KeyError
            | Some e \<Rightarrow>
               (case res_facial_area res of
                  None \<Rightarrow> Inl KeyError
                | Some fa \<Rightarrow>
                   (case extract_loop results of
                      Inl ex \<Rightarrow> Inl ex
                    | Inr extracted \<Rightarrow> Inr (\<lparr>embedding = e, box = fa\<rparr> # extracted))))
      else extract_loop results)"

text \<open>The body of the \<open>try\<close> block: the external call, then the loop.\<close>

definition extract_faces_try :: "('img \<Rightarrow> deepface_outcome) \<Rightarrow> 'img \<Rightarrow> py_exception + face list" where
  "extract_faces_try represent img_path =
     (case represent img_path of
        Raises ex \<Rightarrow> Inl ex
      | Returns results \<Rightarrow> extract_loop results)"

text \<open>
  \<open>extract_faces\<close>: \<open>except Exception\<close> prints the error and returns \<open>[]\<close>. The result is
  a sum so that "returns normally" is a statement about the function and not about its type.
  The external capability \<open>DeepFace.represent\<close> is a parameter.
\<close>

definition extract_faces :: "('img \<Rightarrow> deepface_outcome) \<Rightarrow> 'img \<Rightarrow> py_exception + face list" where
  "extract_faces represent img_path =
     (case extract_faces_try represent img_path of
        Inl ex \<Rightarrow> Inr []
      | Inr extracted \<Rightarrow> Inr extracted)"

subsection \<open>AIEngine.get\_similarity\<close>

text \<open>\<open>np.dot\<close> on two one-dimensional arrays of equal length.\<close>

definition np_dot :: "real list \<Rightarrow> real list \<Rightarrow> real" where
  "np_dot v1 v2 = sum_list (map2 (*) v1 v2)"

text \<open>\<open>np.linalg.norm\<close> on a one-dimensional array: the Euclidean norm.\<close>

definition linalg_norm :: "real list \<Rightarrow> real" where
  "linalg_norm v = sqrt (sum_list (map (\<lambda>x. x * x) v))"

text \<open>
  \<open>np.dot(v1, v2) / (np.linalg.norm(v1) * np.linalg.norm(v2))\<close>. \<open>np.dot\<close> raises
  \<open>ValueError\<close> (shapes not aligned) when the lengths differ. A zero denominator makes the
  division \<open>0.0 / 0.0\<close>, which numpy evaluates to \<open>nan\<close> with a warning, not an exception
  (the denominator is zero only when one vector is all zeros, and then the dot product is
  zero too).
\<close>

definition get_similarity :: "real list \<Rightarrow> real list \<Rightarrow> py_exception + np_float" where
  "get_similarity v1 v2 =
     (if length v1 \<noteq> length v2 then Inl ValueError
      else if linalg_norm v1 * linalg_norm v2 = 0 then Inr NaN
      else Inr (Val (np_dot v1 v2 / (linalg_norm v1 * linalg_norm v2))))"

section \<open>models.py\<close>

text \<open>
  The tables the modelled handlers read or write, with the columns they use. Primary keys
  and timestamps are naturals; nullable columns are options.
\<close>

record photo =
  photo_id :: nat
  photo_relative_path :: string
  photo_created_at :: nat

text \<open>
  \<open>vector_json\<close> and \<open>box_json\<close> hold JSON text written by \<open>json.dumps\<close> in
  \<open>process_photo_ai\<close>; the model keeps the value that \<open>json.loads\<close> gives back.
\<close>

record face_descriptor =
  fd_id :: nat
  fd_photo_id :: nat
  fd_vector_json :: "real list"
  fd_box_json :: "(string \<times> int) list"

record sale_item =
  item_price :: "real option"
  item_product_type :: "string option"
  item_photographer :: "string option"

record sale =
  sale_timestamp :: nat
  sale_final_total :: real
  sale_items :: "sale_item list"

record eod_report =
  eod_id :: nat
  eod_timestamp :: nat
  eod_total_revenue :: real
  eod_digital_count :: nat
  eod_print_count :: nat
  eod_photographer_splits_json :: "(string \<times> real) list"
  eod_closing_user :: string
  eod_notes :: string

text \<open>
  The committed content of the database. A table is the list of its rows in the order a
  query without \<open>ORDER BY\<close> returns them.
\<close>

record database =
  photos :: "photo list"
  face_descriptors :: "face_descriptor list"
  sales :: "sale list"
  eod_reports :: "eod_report list"

text \<open>The key an autoincrementing integer primary key gives a new row.\<close>

definition next_id :: "nat list \<Rightarrow> nat" where
  "next_id ids = Suc (fold max ids 0)"

text \<open>The relationship \<open>d.photo\<close> (backref of \<open>Photo.descriptors\<close>); \<open>None\<close> when no photo row has the key.\<close>

definition fd_photo :: "database \<Rightarrow> face_descriptor \<Rightarrow> photo option" where
  "fd_photo db d = find (\<lambda>p. photo_id p = fd_photo_id d) (photos db)"

section \<open>app.py\<close>

subsection \<open>Responses\<close>

text \<open>An element of \<open>results\<close> in the identify response.\<close>

record match =
  m_photo_id :: nat
  m_similarity :: real
  m_path :: string
  m_date :: string

text \<open>
  The JSON bodies the two handlers build: \<open>{"error": msg}\<close>, \<open>{"error": str(e)}\<close>,
  \<open>{"results": ..., "message"?: ...}\<close> and \<open>{"status": "ok", "id": ...}\<close>.
\<close>

datatype json_body =
  JError string
| JException py_exception
| JResults "match list" "string option"
| JStatusOk nat

datatype response =
  Response json_body nat
| Redirect string
| PlainText string nat

subsection \<open>login\_required\<close>

record session_user =
  username :: string
  role :: string

definition login_required :: "string list \<Rightarrow> session_user option \<Rightarrow> (session_user \<Rightarrow> response \<times> 's) \<Rightarrow> 's \<Rightarrow> response \<times> 's" where
  "login_required roles user f st =
     (case user of
        None \<Rightarrow> (Redirect ''login'', st)
      | Some u \<Rightarrow>
          if roles \<noteq> [] \<and> role u \<notin> set roles
          then (PlainText ''Acceso denegado (Rol insuficiente)'' 403, st)
          else f u)"

subsection \<open>process\_photo\_ai\<close>

text \<open>The \<open>for f in faces\<close> loop: one new row per face.\<close>

fun add_descriptors :: "nat \<Rightarrow> face list \<Rightarrow> face_descriptor list \<Rightarrow> face_descriptor list" where
  "add_descriptors pid [] rows = rows"
| "add_descriptors pid (f # faces) rows =
     add_descriptors pid faces
       (rows @ [\<lparr>fd_id = next_id (map fd_id rows), fd_photo_id = pid,
                 fd_vector_json = embedding f, fd_box_json = box f\<rparr>])"

text \<open>
  The background task. The database statements are taken to succeed; an exception of the
  extractor would be printed and leave the table as it is.
\<close>

definition process_photo_ai :: "('img \<Rightarrow> deepface_outcome) \<Rightarrow> nat \<Rightarrow> 'img \<Rightarrow> database \<Rightarrow> database" where
  "process_photo_ai represent pid file_path db =
     (case extract_faces represent file_path of
        Inl ex \<Rightarrow> db
      | Inr faces \<Rightarrow> db\<lparr>face_descriptors := add_descriptors pid faces (face_descriptors db)\<rparr>)"

subsection \<open>identify\_client\<close>

text \<open>
  What the handler takes from outside: \<open>base64.b64decode\<close>, the face-embedding capability
  applied to the decoded image (written to a temporary file and read back; the file
  operations are taken to succeed), and the date format \<open>strftime("%Y-%m-%d %H:%M")\<close>.
\<close>

record identify_env =
  b64decode :: "string \<Rightarrow> py_exception + string"
  represent :: "string \<Rightarrow> deepface_outcome"
  strftime :: "nat \<Rightarrow> string"

text \<open>\<open>header, encoded = image_b64.split(",", 1)\<close>: unpacking fails when there is no comma.\<close>

definition split_comma :: "string \<Rightarrow> py_exception + (string \<times> string)" where
  "split_comma s =
     (if CHR '','' \<in> set s
      then Inr (takeWhile (\<lambda>c. c \<noteq> CHR '','') s, tl (dropWhile (\<lambda>c. c \<noteq> CHR '','') s))
      else Inl ValueError)"

text \<open>Steps 1 and 2 of the handler: decode the image and extract the faces of the probe.\<close>

definition probe_faces :: "identify_env \<Rightarrow> string \<Rightarrow> py_exception + face list" where
  "probe_faces env image_b64 =
     (case split_comma image_b64 of
        Inl ex \<Rightarrow> Inl ex
      | Inr (header, encoded) \<Rightarrow>
          (case b64decode env encoded of
             Inl ex \<Rightarrow> Inl ex
           | Inr image_data \<Rightarrow> extract_faces (represent env) image_data))"

text \<open>
  Step 3, the linear scan \<open>for d in all_descriptors\<close>. \<open>sim > 0.65\<close> is false for \<open>nan\<close>;
  \<open>d.photo.relative_path\<close> raises \<open>AttributeError\<close> when \<open>d.photo\<close> is \<open>None\<close>.
\<close>

fun search_descriptors :: "identify_env \<Rightarrow> database \<Rightarrow> real list \<Rightarrow> face_descriptor list \<Rightarrow> py_exception + match list" where
  "search_descriptors env db target_encoding [] = Inr []"
| "search_descriptors env db target_encoding (d # ds) =
     (case get_similarity target_encoding (fd_vector_json d) of
        Inl ex \<Rightarrow> Inl ex
      | Inr NaN \<Rightarrow> search_descriptors env db target_encoding ds
      | Inr (Val sim) \<Rightarrow>
          if sim > 65 / 100
          then (case fd_photo db d of
                  None \<Rightarrow> Inl AttributeError
                | Some p \<Rightarrow>
                    (case search_descriptors env db target_encoding ds of
                       Inl ex \<Rightarrow> Inl ex
                     | Inr matches \<Rightarrow>
                         Inr (\<lparr>m_photo_id = fd_photo_id d, m_similarity = sim,
                               m_path = photo_relative_path p,
                               m_date = strftime env (photo_created_at p)\<rparr> # matches)))
          else search_descriptors env db target_encoding ds)"

text \<open>
  \<open>matches.sort(key=lambda x: x['similarity'], reverse=True)\<close>. Python's sort is stable,
  also with \<open>reverse=True\<close>: elements with equal keys keep their order. \<open>sort_key\<close> is a
  stable insertion sort, ascending, so the key is negated.
\<close>

definition sort_matches :: "match list \<Rightarrow> match list" where
  "sort_matches matches = sort_key (\<lambda>x. - m_similarity x) matches"

text \<open>The message of the no-face response (Spanish: no face was detected), without its accents.\<close>

definition no_face_message :: string where
  "no_face_message = ''No se detecto ningun rostro''"

text \<open>The body of the \<open>try\<close> block.\<close>

definition identify_try :: "identify_env \<Rightarrow> string \<Rightarrow> database \<Rightarrow> py_exception + response" where
  "identify_try env image_b64 db =
     (case probe_faces env image_b64 of
        Inl ex \<Rightarrow> Inl ex
      | Inr target_faces \<Rightarrow>
          (case target_faces of
             [] \<Rightarrow> Inr (Response (JResults [] (Some no_face_message)) 200)
           | f # _ \<Rightarrow>
               (case search_descriptors env db (embedding f) (face_descriptors db) of
                  Inl ex \<Rightarrow> Inl ex
                | Inr matches \<Rightarrow>
                    Inr (Response (JResults (take 20 (sort_matches matches)) None) 200))))"

text \<open>
  The handler of \<open>POST /api/identify\<close>. \<open>image_field\<close> is \<open>data.get('image')\<close>; \<open>not image_b64\<close>
  holds for a missing key and for the empty string.
\<close>

definition identify_client :: "identify_env \<Rightarrow> string option \<Rightarrow> database \<Rightarrow> response" where
  "identify_client env image_field db =
     (case image_field of
        None \<Rightarrow> Response (JError ''No image provided'') 400
      | Some image_b64 \<Rightarrow>
          if image_b64 = [] then Response (JError ''No image provided'') 400
          else (case identify_try env image_b64 db of
                  Inl ex \<Rightarrow> Response (JException ex) 500
                | Inr r \<Rightarrow> r))"

subsection \<open>close\_day\_api\<close>

text \<open>\<open>str.lower\<close> on ASCII text.\<close>

definition lower_char :: "char \<Rightarrow> char" where
  "lower_char c =
     (let n = (of_char c :: nat) in if 65 \<le> n \<and> n \<le> 90 then char_of (n + 32) else c)"

definition lower :: "string \<Rightarrow> string" where
  "lower s = map lower_char s"

text \<open>\<open>sub in s\<close> on strings: \<open>sub\<close> occurs in \<open>s\<close> as a contiguous run.\<close>

fun str_contains :: "string \<Rightarrow> string \<Rightarrow> bool" where
  "str_contains sub [] = (sub = [])"
| "str_contains sub (c # cs) = (prefix sub (c # cs) \<or> str_contains sub cs)"

text \<open>\<open>x or dflt\<close> on a nullable string column: \<open>None\<close> and the empty string are both falsy.\<close>

definition str_or :: "string option \<Rightarrow> string \<Rightarrow> string" where
  "str_or x dflt = (case x of None \<Rightarrow> dflt | Some s \<Rightarrow> if s = [] then dflt else s)"

text \<open>
  The inner loop \<open>for item in s.items\<close> on the counters \<open>(digital_count, print_count,
  ph_splits)\<close>. \<open>ph_splits.get(ph, 0) + item.price\<close> raises \<open>TypeError\<close> when the price
  column is \<open>NULL\<close>. The dict keeps insertion order, as \<open>AList.update\<close> does.
\<close>

fun tally_items :: "sale_item list \<Rightarrow> nat \<times> nat \<times> (string \<times> real) list \<Rightarrow> py_exception + nat \<times> nat \<times> (string \<times> real) list" where
  "tally_items [] acc = Inr acc"
| "tally_items (item # rest) (digital_count, print_count, ph_splits) =
     (let (digital_count', print_count') =
            (if str_contains ''print'' (lower (str_or (item_product_type item) []))
             then (digital_count, print_count + 1)
             else (digital_count + 1, print_count));
          ph = str_or (item_photographer item) ''Manual''
      in case item_price item of
           None \<Rightarrow> Inl TypeError
         | Some price \<Rightarrow>
             tally_items rest
               (digital_count', print_count',
                AList.update ph (dict_get ph_splits ph 0 + price) ph_splits))"

text \<open>The outer loop \<open>for s in sales\<close>.\<close>

fun tally_sales :: "sale list \<Rightarrow> nat \<times> nat \<times> (string \<times> real) list \<Rightarrow> py_exception + nat \<times> nat \<times> (string \<times> real) list" where
  "tally_sales [] acc = Inr acc"
| "tally_sales (s # rest) acc =
     (case tally_items (sale_items s) acc of
        Inl ex \<Rightarrow> Inl ex
      | Inr acc' \<Rightarrow> tally_sales rest acc')"

text \<open>
  \<open>EODReport.query.order_by(EODReport.timestamp.desc()).first()\<close>; the handler reads only
  the timestamp of that row, the largest one.
\<close>

definition last_eod_timestamp :: "eod_report list \<Rightarrow> nat option" where
  "last_eod_timestamp reports =
     (case reports of
        [] \<Rightarrow> None
      | r # rs \<Rightarrow> Some (fold max (map eod_timestamp rs) (eod_timestamp r)))"

text \<open>
  The statements the handler sends to the database. Each can fail; the driver's outcome
  for each is a parameter (\<open>None\<close>: the statement succeeds).
\<close>

datatype db_step = QueryLastReport | QuerySales | DeleteDescriptors | Commit

text \<open>
  The body of the \<open>try\<close> block. \<open>db.session.add\<close> and \<open>FaceDescriptor.query.delete()\<close>
  change the session's open transaction only; the one \<open>db.session.commit()\<close> makes both
  changes the committed content at once. The result is the new report's key and the
  committed database.
\<close>

definition close_day_try :: "(db_step \<Rightarrow> py_exception option) \<Rightarrow> nat \<Rightarrow> session_user \<Rightarrow> string \<Rightarrow> database \<Rightarrow> py_exception + nat \<times> database" where
  "close_day_try fails now user notes db =
     (case fails QueryLastReport of
        Some ex \<Rightarrow> Inl ex
      | None \<Rightarrow>
     (case fails QuerySales of
        Some ex \<Rightarrow> Inl ex
      | None \<Rightarrow>
     (let sales_since =
            (case last_eod_timestamp (eod_reports db) of
               None \<Rightarrow> sales db
             | Some t \<Rightarrow> filter (\<lambda>s. sale_timestamp s > t) (sales db));
          total_rev = sum_list (map sale_final_total sales_since)
      in case tally_sales sales_since (0, 0, []) of
           Inl ex \<Rightarrow> Inl ex
         | Inr (digital_count, print_count, ph_splits) \<Rightarrow>
     (let new_report =
            \<lparr>eod_id = next_id (map eod_id (eod_reports db)),
             eod_timestamp = now,
             eod_total_revenue = total_rev,
             eod_digital_count = digital_count,
             eod_print_count = print_count,
             eod_photographer_splits_json = ph_splits,
             eod_closing_user = username user,
             eod_notes = notes\<rparr>;
          session_added = db\<lparr>eod_reports := eod_reports db @ [new_report]\<rparr>
      in case fails DeleteDescriptors of
           Some ex \<Rightarrow> Inl ex
         | None \<Rightarrow>
     (let session_deleted = session_added\<lparr>face_descriptors := []\<rparr>
      in case fails Commit of
           Some ex \<Rightarrow> Inl ex
         | None \<Rightarrow> Inr (eod_id new_report, session_deleted))))))"

text \<open>
  The handler of \<open>POST /api/sales/close_day\<close>, behind \<open>login_required(roles=['admin'])\<close>.
  It returns the response and the committed database after the request: on an exception
  nothing was committed, and the session's open transaction is dropped with the request.
\<close>

definition close_day_api :: "(db_step \<Rightarrow> py_exception option) \<Rightarrow> nat \<Rightarrow> session_user option \<Rightarrow> string \<Rightarrow> database \<Rightarrow> response \<times> database" where
  "close_day_api fails now user notes db =
     login_required [''admin''] user
       (\<lambda>u. case close_day_try fails now u notes db of
               Inl ex \<Rightarrow> (Response (JException ex) 500, db)
             | Inr (rid, db') \<Rightarrow> (Response (JStatusOk rid) 200, db'))
       db"

section \<open>Reference definitions and concrete inputs\<close>

subsection \<open>What the search is expected to compute\<close>

text \<open>
  The data-model invariants the search relies on, for a probe embedding: every stored
  embedding has the probe's dimensionality and every descriptor's photo exists.
\<close>

definition descriptors_consistent :: "database \<Rightarrow> real list \<Rightarrow> bool" where
  "descriptors_consistent db target =
     (\<forall>d \<in> set (face_descriptors db).
        length (fd_vector_json d) = length target \<and> fd_photo db d \<noteq> None)"

text \<open>The score of a stored descriptor against the probe, when the similarity is a number.\<close>

definition descriptor_score :: "real list \<Rightarrow> face_descriptor \<Rightarrow> real" where
  "descriptor_score target d =
     (case get_similarity target (fd_vector_json d) of Inr (Val s) \<Rightarrow> s | _ \<Rightarrow> 0)"

text \<open>The descriptor's cosine similarity with the probe strictly exceeds the threshold 0.65.\<close>

definition exceeds_threshold :: "real list \<Rightarrow> face_descriptor \<Rightarrow> bool" where
  "exceeds_threshold target d =
     (case get_similarity target (fd_vector_json d) of Inr (Val s) \<Rightarrow> s > 65 / 100 | _ \<Rightarrow> False)"

text \<open>The result entry of one descriptor: its own photo reference and its own score.\<close>

definition descriptor_match :: "identify_env \<Rightarrow> database \<Rightarrow> real list \<Rightarrow> face_descriptor \<Rightarrow> match" where
  "descriptor_match env db target d =
     \<lparr>m_photo_id = fd_photo_id d,
      m_similarity = descriptor_score target d,
      m_path = (case fd_photo db d of None \<Rightarrow> [] | Some p \<Rightarrow> photo_relative_path p),
      m_date = (case fd_photo db d of None \<Rightarrow> [] | Some p \<Rightarrow> strftime env (photo_created_at p))\<rparr>"

subsection \<open>Concrete inputs\<close>

text \<open>A capability that answers every image with the same outcome.\<close>

definition const_represent :: "deepface_outcome \<Rightarrow> 'img \<Rightarrow> deepface_outcome" where
  "const_represent out img = out"

definition fixed_date :: "nat \<Rightarrow> string" where
  "fixed_date t = ''2024-01-01 10:00''"

text \<open>An environment whose decoder hands the text through and whose capability is constant.\<close>

definition env_of :: "deepface_outcome \<Rightarrow> identify_env" where
  "env_of out = \<lparr>b64decode = Inr, represent = const_represent out, strftime = fixed_date\<rparr>"

text \<open>A detected face of width 30 and height 40, and one of width 5 and height 0.\<close>

definition good_face :: deepface_face where
  "good_face = \<lparr>res_embedding = Some [1, 0],
                res_facial_area = Some [(''x'', 10), (''y'', 20), (''w'', 30), (''h'', 40)]\<rparr>"

definition flat_face :: deepface_face where
  "flat_face = \<lparr>res_embedding = Some [1, 0],
                res_facial_area = Some [(''x'', 0), (''y'', 0), (''w'', 5), (''h'', 0)]\<rparr>"

definition photo_7 :: photo where
  "photo_7 = \<lparr>photo_id = 7, photo_relative_path = ''2024-01-01/Ana/a.jpg'', photo_created_at = 100\<rparr>"

definition photo_8 :: photo where
  "photo_8 = \<lparr>photo_id = 8, photo_relative_path = ''2024-01-01/Ana/b.jpg'', photo_created_at = 200\<rparr>"

text \<open>Two descriptors with the same embedding: key 1 on photo 8, key 2 on photo 7.\<close>

definition descriptor_1 :: face_descriptor where
  "descriptor_1 = \<lparr>fd_id = 1, fd_photo_id = 8, fd_vector_json = [1, 0], fd_box_json = []\<rparr>"

definition descriptor_2 :: face_descriptor where
  "descriptor_2 = \<lparr>fd_id = 2, fd_photo_id = 7, fd_vector_json = [1, 0], fd_box_json = []\<rparr>"

text \<open>A store whose descriptor query returns the row with key 2 before the row with key 1.\<close>

definition tie_db :: database where
  "tie_db = \<lparr>photos = [photo_7, photo_8], face_descriptors = [descriptor_2, descriptor_1],
             sales = [], eod_reports = []\<rparr>"

text \<open>The same rows in ascending key order.\<close>

definition ordered_db :: database where
  "ordered_db = \<lparr>photos = [photo_7, photo_8], face_descriptors = [descriptor_1, descriptor_2],
                 sales = [], eod_reports = []\<rparr>"

definition admin_user :: session_user where
  "admin_user = \<lparr>username = ''admin'', role = ''admin''\<rparr>"

text \<open>No statement of the closing fails; the purge fails.\<close>

definition no_failure :: "db_step \<Rightarrow> py_exception option" where
  "no_failure step = None"

definition purge_failure :: "db_step \<Rightarrow> py_exception option" where
  "purge_failure step = (if step = DeleteDescriptors then Some ExternalError else None)"

text \<open>
  Two more descriptors on photo 7: one orthogonal to the embedding \<open>[1, 0]\<close>, one at
  cosine 0.8 from it; and a store where photo 7 has three descriptors.
\<close>

definition descriptor_3 :: face_descriptor where
  "descriptor_3 = \<lparr>fd_id = 3, fd_photo_id = 7, fd_vector_json = [0, 1], fd_box_json = []\<rparr>"

definition descriptor_4 :: face_descriptor where
  "descriptor_4 = \<lparr>fd_id = 4, fd_photo_id = 7, fd_vector_json = [4, 3], fd_box_json = []\<rparr>"

definition mixed_db :: database where
  "mixed_db = \<lparr>photos = [photo_7, photo_8],
               face_descriptors = [descriptor_3, descriptor_4, descriptor_1, descriptor_2],
               sales = [], eod_reports = []\<rparr>"

text \<open>A store whose only descriptor is orthogonal to \<open>[1, 0]\<close>.\<close>

definition far_db :: database where
  "far_db = \<lparr>photos = [photo_7, photo_8], face_descriptors = [descriptor_3],
             sales = [], eod_reports = []\<rparr>"

text \<open>The \<open>image\<close> field of a request: a data URL.\<close>

definition data_url :: string where
  "data_url = ''data:image/jpeg;base64,AAAA''"

text \<open>The result entries of the concrete descriptors for the probe \<open>[1, 0]\<close>.\<close>

definition match_of_1 :: match where
  "match_of_1 = \<lparr>m_photo_id = 8, m_similarity = 1, m_path = ''2024-01-01/Ana/b.jpg'',
                 m_date = ''2024-01-01 10:00''\<rparr>"

definition match_of_2 :: match where
  "match_of_2 = \<lparr>m_photo_id = 7, m_similarity = 1, m_path = ''2024-01-01/Ana/a.jpg'',
                 m_date = ''2024-01-01 10:00''\<rparr>"

definition match_of_4 :: match where
  "match_of_4 = \<lparr>m_photo_id = 7, m_similarity = 4 / 5, m_path = ''2024-01-01/Ana/a.jpg'',
                 m_date = ''2024-01-01 10:00''\<rparr>"

text \<open>
  A day to close: ten live descriptors on photo 7, one sale with a digital item sold by
  Ana and a print item without photographer, and no earlier closing.
\<close>

definition numbered_descriptor :: "nat \<Rightarrow> face_descriptor" where
  "numbered_descriptor i = \<lparr>fd_id = i, fd_photo_id = 7, fd_vector_json = [1, 0], fd_box_json = []\<rparr>"

definition sale_1 :: sale where
  "sale_1 = \<lparr>sale_timestamp = 50, sale_final_total = 35,
             sale_items =
               [\<lparr>item_price = Some 15, item_product_type = Some ''digital'',
                 item_photographer = Some ''Ana''\<rparr>,
                \<lparr>item_price = Some 20, item_product_type = Some ''Print'',
                 item_photographer = None\<rparr>]\<rparr>"

definition closing_db :: database where
  "closing_db = \<lparr>photos = [photo_7, photo_8],
                 face_descriptors = map numbered_descriptor [1, 2, 3, 4, 5, 6, 7, 8, 9, 10],
                 sales = [sale_1], eod_reports = []\<rparr>"

definition report_1 :: eod_report where
  "report_1 = \<lparr>eod_id = 1, eod_timestamp = 300, eod_total_revenue = 35, eod_digital_count = 1,
               eod_print_count = 1, eod_photographer_splits_json = [(''Ana'', 15), (''Manual'', 20)],
               eod_closing_user = ''admin'', eod_notes = ''ok''\<rparr>"

text \<open>A store with two photos and nothing else, before any upload was processed.\<close>

definition fresh_db :: database where
  "fresh_db = \<lparr>photos = [photo_7, photo_8], face_descriptors = [], sales = [], eod_reports = []\<rparr>"

definition report_empty :: eod_report where
  "report_empty = \<lparr>eod_id = 1, eod_timestamp = 300, eod_total_revenue = 0, eod_digital_count = 0,
               eod_print_count = 0, eod_photographer_splits_json = [],
               eod_closing_user = ''admin'', eod_notes = ''ok''\<rparr>"

section \<open>The extractor adapter\<close>

lemma extract_loop_width:
  "extract_loop results = Inr fs \<Longrightarrow> f \<in> set fs \<Longrightarrow> \<exists>w. map_of (box f) ''w'' = Some w \<and> 0 < w"
proof (induction results arbitrary: fs)
  case Nil
  then show ?case by simp
next
  case (Cons res results)
  show ?case
  proof (cases "dict_get (case res_facial_area res of None \<Rightarrow> [] | Some fa \<Rightarrow> fa) ''w'' 0 > 0")
    case False
    with Cons show ?thesis by simp
  next
    case True
    with Cons.prems obtain e fa rest where
      parts: "res_embedding res = Some e" "res_facial_area res = Some fa"
        "extract_loop results = Inr rest" "fs = \<lparr>embedding = e, box = fa\<rparr> # rest"
      by (auto split: option.splits sum.splits)
    from True parts have "\<exists>w. map_of fa ''w'' = Some w \<and> 0 < w"
      by (simp add: dict_get_def split: option.splits)
    with parts Cons.IH [of rest] Cons.prems(2) show ?thesis by auto
  qed
qed

text \<open>
  C7, as the code has it: every face that \<open>extract_faces\<close> returns has a bounding box with
  a key \<open>w\<close> whose value is positive. The height is not looked at.
\<close>

theorem extract_faces_width_positive:
  assumes "extract_faces capability img = Inr fs" and "f \<in> set fs"
  shows "\<exists>w. map_of (box f) ''w'' = Some w \<and> 0 < w"
proof (cases "extract_faces_try capability img")
  case (Inl ex)
  with assms show ?thesis by (simp add: extract_faces_def)
next
  case (Inr extracted)
  with assms(1) have fs: "fs = extracted" by (simp add: extract_faces_def)
  from Inr obtain results where "extract_loop results = Inr extracted"
    by (auto simp: extract_faces_try_def split: deepface_outcome.splits)
  with fs assms(2) show ?thesis using extract_loop_width by blast
qed

theorem extract_faces_width_positive_witness:
  "extract_faces (const_represent (Returns [good_face])) ''a.jpg''
     = Inr [\<lparr>embedding = [1, 0], box = [(''x'', 10), (''y'', 20), (''w'', 30), (''h'', 40)]\<rparr>]
   \<and> (\<exists>w. map_of [(''x'', 10), (''y'', 20), (''w'', 30), (''h'', 40 :: int)] ''w'' = Some w \<and> 0 < w)"
proof -
  have run: "extract_faces (const_represent (Returns [good_face])) ''a.jpg''
     = Inr [\<lparr>embedding = [1, 0], box = [(''x'', 10), (''y'', 20), (''w'', 30), (''h'', 40)]\<rparr>]"
    by (simp add: extract_faces_def extract_faces_try_def const_represent_def good_face_def dict_get_def)
  from extract_faces_width_positive [OF run, of "\<lparr>embedding = [1, 0], box = [(''x'', 10), (''y'', 20), (''w'', 30), (''h'', 40)]\<rparr>"]
  show ?thesis using run by simp
qed

text \<open>
  C7, as the claim states it, fails: a face whose box has width 5 and height 0 is returned.
\<close>

theorem extract_faces_zero_height_counterexample:
  "extract_faces (const_represent (Returns [flat_face])) ''a.jpg''
     = Inr [\<lparr>embedding = [1, 0], box = [(''x'', 0), (''y'', 0), (''w'', 5), (''h'', 0)]\<rparr>]"
  by (simp add: extract_faces_def extract_faces_try_def const_represent_def flat_face_def dict_get_def)

text \<open>
  C9: \<open>extract_faces\<close> always returns a list, never an exception; whenever the body of its
  \<open>try\<close> block raises, the list is empty; and a call whose capability raises returns what a
  call returns whose capability finds no face.
\<close>

theorem extract_faces_total:
  "(\<exists>fs. extract_faces capability img = Inr fs)
   \<and> (\<forall>ex. extract_faces_try capability img = Inl ex \<longrightarrow> extract_faces capability img = Inr [])
   \<and> (\<forall>ex. capability img = Raises ex \<longrightarrow>
         extract_faces capability img = extract_faces (const_represent (Returns [])) img)"
  by (auto simp: extract_faces_def extract_faces_try_def const_represent_def split: sum.splits)

theorem extract_faces_total_witness:
  "extract_faces_try (const_represent (Raises ExternalError)) ''a.jpg'' = Inl ExternalError
   \<and> extract_faces (const_represent (Raises ExternalError)) ''a.jpg'' = Inr []
   \<and> extract_faces (const_represent (Returns [])) ''a.jpg'' = Inr []"
proof -
  have raised: "extract_faces_try (const_represent (Raises ExternalError)) ''a.jpg'' = Inl ExternalError"
    by (simp add: extract_faces_try_def const_represent_def)
  have "const_represent (Raises ExternalError) ''a.jpg'' = Raises ExternalError"
    by (simp add: const_represent_def)
  with raised extract_faces_total [of "const_represent (Raises ExternalError)" "''a.jpg''"]
  show ?thesis by auto
qed

section \<open>Cosine similarity\<close>










section \<open>The similarity search\<close>

subsection \<open>The scan\<close>

lemma exceeds_threshold_score:
  "exceeds_threshold target d \<Longrightarrow>
     get_similarity target (fd_vector_json d) = Inr (Val (descriptor_score target d))
     \<and> descriptor_score target d > 65 / 100"
  by (auto simp: exceeds_threshold_def descriptor_score_def split: sum.splits np_float.splits)

lemma search_descriptors_step:
  assumes "length (fd_vector_json d) = length target" and "fd_photo db d \<noteq> None"
    and "search_descriptors env db target ds = Inr ms"
  shows "search_descriptors env db target (d # ds) =
           Inr (if exceeds_threshold target d then descriptor_match env db target d # ms else ms)"
proof (cases "get_similarity target (fd_vector_json d)")
  case (Inl ex)
  with assms(1) show ?thesis by (simp add: get_similarity_def split: if_splits)
next
  case (Inr v)
  show ?thesis
  proof (cases v)
    case NaN
    with Inr assms(3) show ?thesis by (simp add: exceeds_threshold_def)
  next
    case (Val s)
    from assms(2) obtain p where p: "fd_photo db d = Some p" by auto
    with Inr Val assms(3) show ?thesis
      by (simp add: exceeds_threshold_def descriptor_match_def descriptor_score_def)
  qed
qed

lemma search_descriptors_consistent:
  assumes "\<forall>d \<in> set ds. length (fd_vector_json d) = length target \<and> fd_photo db d \<noteq> None"
  shows "search_descriptors env db target ds =
           Inr (map (descriptor_match env db target) (filter (exceeds_threshold target) ds))"
  using assms
proof (induction ds)
  case Nil
  then show ?case by simp
next
  case (Cons d ds)
  then have rest: "search_descriptors env db target ds =
      Inr (map (descriptor_match env db target) (filter (exceeds_threshold target) ds))"
    by simp
  from Cons.prems have "length (fd_vector_json d) = length target" "fd_photo db d \<noteq> None"
    by simp_all
  from search_descriptors_step [OF this rest] show ?case by simp
qed

lemma identify_client_detected:
  assumes "image_b64 \<noteq> []" and "probe_faces env image_b64 = Inr (f # fs)"
    and "descriptors_consistent db (embedding f)"
  shows "identify_client env (Some image_b64) db =
           Response (JResults (take 20 (sort_matches
             (map (descriptor_match env db (embedding f))
                  (filter (exceeds_threshold (embedding f)) (face_descriptors db))))) None) 200"
proof -
  from assms(3) have "search_descriptors env db (embedding f) (face_descriptors db) =
      Inr (map (descriptor_match env db (embedding f))
               (filter (exceeds_threshold (embedding f)) (face_descriptors db)))"
    unfolding descriptors_consistent_def by (rule search_descriptors_consistent)
  with assms(1,2) show ?thesis
    by (simp add: identify_client_def identify_try_def)
qed

subsection \<open>The ranking\<close>

lemma sort_matches_descending:
  "sorted_wrt (\<lambda>a b. m_similarity b \<le> m_similarity a) (sort_matches ms)"
proof -
  have "sorted (map (\<lambda>x. - m_similarity x) (sort_key (\<lambda>x. - m_similarity x) ms))"
    by (rule sorted_sort_key)
  then show ?thesis by (simp add: sort_matches_def sorted_map)
qed

lemma take_sort_matches_descending:
  "sorted_wrt (\<lambda>a b. m_similarity b \<le> m_similarity a) (take n (sort_matches ms))"
  using sort_matches_descending by (rule sorted_wrt_take)

lemma descending_adjacent:
  assumes "sorted_wrt (\<lambda>a b. m_similarity b \<le> m_similarity a) rs" and "Suc i < length rs"
  shows "m_similarity (rs ! Suc i) \<le> m_similarity (rs ! i)"
  using assms by (simp add: sorted_wrt_iff_nth_less)

lemma take_above_drop:
  assumes "r \<in> set (take n (sort_matches ms))" and "m \<in> set (drop n (sort_matches ms))"
  shows "m_similarity m \<le> m_similarity r"
proof -
  have "sorted_wrt (\<lambda>a b. m_similarity b \<le> m_similarity a)
          (take n (sort_matches ms) @ drop n (sort_matches ms))"
    using sort_matches_descending by simp
  with assms show ?thesis unfolding sorted_wrt_append by blast
qed

lemma take_drop_sort_matches_mset:
  "mset (take n (sort_matches ms)) + mset (drop n (sort_matches ms)) = mset ms"
proof -
  have "mset (take n (sort_matches ms)) + mset (drop n (sort_matches ms))
      = mset (take n (sort_matches ms) @ drop n (sort_matches ms))"
    by (simp only: mset_append)
  also have "\<dots> = mset (sort_matches ms)" by simp
  also have "\<dots> = mset ms" by (simp add: sort_matches_def)
  finally show ?thesis .
qed

lemma length_take_sort_matches:
  "length (take n (sort_matches (map g ds))) = min n (length ds)"
  by (simp add: sort_matches_def min.commute)

lemma set_take_sort_matches:
  "m \<in> set (take n (sort_matches ms)) \<Longrightarrow> m \<in> set ms"
  by (auto simp: sort_matches_def dest: in_set_takeD)



subsection \<open>Concrete runs\<close>

lemma split_data_url: "split_comma data_url = Inr (''data:image/jpeg;base64'', ''AAAA'')"
  by (simp add: split_comma_def data_url_def)

lemma data_url_nonempty: "data_url \<noteq> []"
  by (simp add: data_url_def)

lemma probe_good_face:
  "probe_faces (env_of (Returns [good_face])) data_url =
     Inr [\<lparr>embedding = [1, 0], box = [(''x'', 10), (''y'', 20), (''w'', 30), (''h'', 40)]\<rparr>]"
  by (simp add: probe_faces_def split_data_url env_of_def extract_faces_def extract_faces_try_def
      const_represent_def good_face_def dict_get_def)

lemma probe_no_face:
  "probe_faces (env_of (Returns [])) data_url = Inr []"
  by (simp add: probe_faces_def split_data_url env_of_def extract_faces_def extract_faces_try_def
      const_represent_def)

lemma similarity_1: "get_similarity [1, 0] (fd_vector_json descriptor_1) = Inr (Val 1)"
  by (simp add: descriptor_1_def get_similarity_def linalg_norm_def np_dot_def)

lemma similarity_2: "get_similarity [1, 0] (fd_vector_json descriptor_2) = Inr (Val 1)"
  by (simp add: descriptor_2_def get_similarity_def linalg_norm_def np_dot_def)

lemma similarity_3: "get_similarity [1, 0] (fd_vector_json descriptor_3) = Inr (Val 0)"
  by (simp add: descriptor_3_def get_similarity_def linalg_norm_def np_dot_def)

lemma similarity_4: "get_similarity [1, 0] (fd_vector_json descriptor_4) = Inr (Val (4 / 5))"
  by (simp add: descriptor_4_def get_similarity_def linalg_norm_def np_dot_def)

lemmas concrete_similarity = similarity_1 similarity_2 similarity_3 similarity_4

lemma photo_of_descriptors:
  "fd_photo \<lparr>photos = [photo_7, photo_8], face_descriptors = ds, sales = ss, eod_reports = rs\<rparr> descriptor_1 = Some photo_8"
  "fd_photo \<lparr>photos = [photo_7, photo_8], face_descriptors = ds, sales = ss, eod_reports = rs\<rparr> descriptor_2 = Some photo_7"
  "fd_photo \<lparr>photos = [photo_7, photo_8], face_descriptors = ds, sales = ss, eod_reports = rs\<rparr> descriptor_3 = Some photo_7"
  "fd_photo \<lparr>photos = [photo_7, photo_8], face_descriptors = ds, sales = ss, eod_reports = rs\<rparr> descriptor_4 = Some photo_7"
  by (simp_all add: fd_photo_def photo_7_def photo_8_def descriptor_1_def descriptor_2_def
      descriptor_3_def descriptor_4_def)

lemma concrete_matches:
  "\<lparr>m_photo_id = fd_photo_id descriptor_1, m_similarity = 1, m_path = photo_relative_path photo_8,
    m_date = strftime (env_of out) (photo_created_at photo_8)\<rparr> = match_of_1"
  "\<lparr>m_photo_id = fd_photo_id descriptor_2, m_similarity = 1, m_path = photo_relative_path photo_7,
    m_date = strftime (env_of out) (photo_created_at photo_7)\<rparr> = match_of_2"
  "\<lparr>m_photo_id = fd_photo_id descriptor_4, m_similarity = 4 / 5, m_path = photo_relative_path photo_7,
    m_date = strftime (env_of out) (photo_created_at photo_7)\<rparr> = match_of_4"
  by (simp_all add: match_of_1_def match_of_2_def match_of_4_def descriptor_1_def descriptor_2_def
      descriptor_4_def photo_7_def photo_8_def env_of_def fixed_date_def)

lemma search_mixed_db:
  "search_descriptors (env_of out) mixed_db [1, 0] (face_descriptors mixed_db) =
     Inr [match_of_4, match_of_1, match_of_2]"
  by (simp add: mixed_db_def concrete_similarity photo_of_descriptors concrete_matches)



lemma search_far_db:
  "search_descriptors (env_of out) far_db [1, 0] (face_descriptors far_db) = Inr []"
  by (simp add: far_db_def concrete_similarity)

lemma concrete_sorts:
  "sort_matches [match_of_4, match_of_1, match_of_2] = [match_of_1, match_of_2, match_of_4]"
  "sort_matches [match_of_2, match_of_1] = [match_of_2, match_of_1]"
  "sort_matches [match_of_1, match_of_2] = [match_of_1, match_of_2]"
  by (simp_all add: sort_matches_def match_of_1_def match_of_2_def match_of_4_def)

lemma identify_mixed_db:
  "identify_client (env_of (Returns [good_face])) (Some data_url) mixed_db =
     Response (JResults [match_of_1, match_of_2, match_of_4] None) 200"
  by (simp add: identify_client_def identify_try_def data_url_nonempty probe_good_face
      search_mixed_db concrete_sorts)


lemma consistent_concrete:
  "descriptors_consistent mixed_db [1, 0]"
  "descriptors_consistent tie_db [1, 0]"
  "descriptors_consistent ordered_db [1, 0]"
  "descriptors_consistent far_db [1, 0]"
  by (simp_all add: descriptors_consistent_def mixed_db_def tie_db_def ordered_db_def far_db_def
      photo_of_descriptors)
      (simp_all add: descriptor_1_def descriptor_2_def descriptor_3_def descriptor_4_def)
subsection \<open>The claims on identify\<close>

text \<open>
  C2: for a probe with at least one detected face and a store whose descriptors have the
  probe's dimensionality and an existing photo, \<open>identify_client\<close> answers 200 with the
  result entries of exactly the descriptors whose cosine similarity with the first probe
  face is strictly above 0.65, sorted by descending similarity (no adjacent pair out of
  order) and cut to the 20 best: every entry left out scores no higher than any entry
  kept. A descriptor that does not exceed the threshold gives no entry.
\<close>

theorem identify_ranked_matches:
  assumes "image_b64 \<noteq> []" and "probe_faces env image_b64 = Inr (f # fs)"
    and "descriptors_consistent db (embedding f)"
  shows "\<exists>rs. identify_client env (Some image_b64) db = Response (JResults rs None) 200
    \<and> rs = take 20 (sort_matches (map (descriptor_match env db (embedding f))
              (filter (exceeds_threshold (embedding f)) (face_descriptors db))))
    \<and> sorted_wrt (\<lambda>a b. m_similarity b \<le> m_similarity a) rs
    \<and> (\<forall>i. Suc i < length rs \<longrightarrow> m_similarity (rs ! Suc i) \<le> m_similarity (rs ! i))
    \<and> length rs = min 20 (length (filter (exceeds_threshold (embedding f)) (face_descriptors db)))
    \<and> (\<forall>m \<in> set rs. \<exists>d \<in> set (face_descriptors db).
          m = descriptor_match env db (embedding f) d
          \<and> get_similarity (embedding f) (fd_vector_json d) = Inr (Val (m_similarity m))
          \<and> m_similarity m > 65 / 100)
    \<and> (\<forall>m \<in> set (drop 20 (sort_matches (map (descriptor_match env db (embedding f))
              (filter (exceeds_threshold (embedding f)) (face_descriptors db))))).
          \<forall>r \<in> set rs. m_similarity m \<le> m_similarity r)
    \<and> mset rs + mset (drop 20 (sort_matches (map (descriptor_match env db (embedding f))
              (filter (exceeds_threshold (embedding f)) (face_descriptors db)))))
        = mset (map (descriptor_match env db (embedding f))
              (filter (exceeds_threshold (embedding f)) (face_descriptors db)))"
proof -
  let ?t = "embedding f"
  let ?all = "map (descriptor_match env db ?t) (filter (exceeds_threshold ?t) (face_descriptors db))"
  let ?rs = "take 20 (sort_matches ?all)"
  have resp: "identify_client env (Some image_b64) db = Response (JResults ?rs None) 200"
    using assms by (rule identify_client_detected)
  have sorted: "sorted_wrt (\<lambda>a b. m_similarity b \<le> m_similarity a) ?rs"
    by (rule take_sort_matches_descending)
  have adjacent: "\<forall>i. Suc i < length ?rs \<longrightarrow> m_similarity (?rs ! Suc i) \<le> m_similarity (?rs ! i)"
    using sorted descending_adjacent by blast
  have len: "length ?rs = min 20 (length (filter (exceeds_threshold ?t) (face_descriptors db)))"
    by (rule length_take_sort_matches)
  have origin: "\<forall>m \<in> set ?rs. \<exists>d \<in> set (face_descriptors db).
          m = descriptor_match env db ?t d
          \<and> get_similarity ?t (fd_vector_json d) = Inr (Val (m_similarity m))
          \<and> m_similarity m > 65 / 100"
  proof
    fix m assume "m \<in> set ?rs"
    then have "m \<in> set ?all" by (rule set_take_sort_matches)
    then obtain d where d: "d \<in> set (face_descriptors db)" "exceeds_threshold ?t d"
      "m = descriptor_match env db ?t d" by auto
    from d(3) have "m_similarity m = descriptor_score ?t d" by (simp add: descriptor_match_def)
    with exceeds_threshold_score [OF d(2)] d(1,3)
    show "\<exists>d \<in> set (face_descriptors db).
          m = descriptor_match env db ?t d
          \<and> get_similarity ?t (fd_vector_json d) = Inr (Val (m_similarity m))
          \<and> m_similarity m > 65 / 100" by auto
  qed
  have best: "\<forall>m \<in> set (drop 20 (sort_matches ?all)). \<forall>r \<in> set ?rs. m_similarity m \<le> m_similarity r"
    using take_above_drop by blast
  have all: "mset ?rs + mset (drop 20 (sort_matches ?all)) = mset ?all"
    by (rule take_drop_sort_matches_mset)
  from resp sorted adjacent len origin best all show ?thesis by blast
qed

theorem identify_ranked_matches_witness:
  "data_url \<noteq> []
   \<and> probe_faces (env_of (Returns [good_face])) data_url =
       Inr [\<lparr>embedding = [1, 0], box = [(''x'', 10), (''y'', 20), (''w'', 30), (''h'', 40)]\<rparr>]
   \<and> descriptors_consistent mixed_db [1, 0]
   \<and> (\<exists>rs. identify_client (env_of (Returns [good_face])) (Some data_url) mixed_db
            = Response (JResults rs None) 200
         \<and> rs = [match_of_1, match_of_2, match_of_4]
         \<and> sorted_wrt (\<lambda>a b. m_similarity b \<le> m_similarity a) rs)"
proof -
  have c: "descriptors_consistent mixed_db
      (embedding \<lparr>embedding = [1, 0], box = [(''x'', 10), (''y'', 20), (''w'', 30), (''h'', 40)]\<rparr>)"
    by (simp add: consistent_concrete)
  from identify_ranked_matches [OF data_url_nonempty probe_good_face c]
  obtain rs where rs: "identify_client (env_of (Returns [good_face])) (Some data_url) mixed_db
        = Response (JResults rs None) 200"
      "sorted_wrt (\<lambda>a b. m_similarity b \<le> m_similarity a) rs"
    by blast
  with identify_mixed_db have "rs = [match_of_1, match_of_2, match_of_4]" by simp
  with rs show ?thesis
    using data_url_nonempty probe_good_face consistent_concrete(1) by blast
qed

text \<open>
  C3, as the code has it: when the extractor call raises, \<open>extract_faces\<close> catches the
  exception and returns the empty list, so \<open>identify_client\<close> answers 200 with empty
  results and the no-face message; no error is surfaced.
\<close>

theorem identify_swallows_extractor_failure:
  assumes "image_b64 \<noteq> []" and "split_comma image_b64 = Inr (header, encoded)"
    and "b64decode env encoded = Inr image_data" and "represent env image_data = Raises ex"
  shows "identify_client env (Some image_b64) db = Response (JResults [] (Some no_face_message)) 200"
  using assms
  by (simp add: identify_client_def identify_try_def probe_faces_def extract_faces_def
      extract_faces_try_def)

theorem identify_swallows_extractor_failure_witness:
  "data_url \<noteq> [] \<and> split_comma data_url = Inr (''data:image/jpeg;base64'', ''AAAA'')
   \<and> b64decode (env_of (Raises ExternalError)) ''AAAA'' = Inr ''AAAA''
   \<and> represent (env_of (Raises ExternalError)) ''AAAA'' = Raises ExternalError
   \<and> identify_client (env_of (Raises ExternalError)) (Some data_url) far_db
       = Response (JResults [] (Some no_face_message)) 200"
proof -
  have d: "b64decode (env_of (Raises ExternalError)) ''AAAA'' = Inr ''AAAA''"
    by (simp add: env_of_def)
  have r: "represent (env_of (Raises ExternalError)) ''AAAA'' = Raises ExternalError"
    by (simp add: env_of_def const_represent_def)
  from identify_swallows_extractor_failure [OF data_url_nonempty split_data_url d r, of far_db]
  show ?thesis using data_url_nonempty split_data_url d r by simp
qed

text \<open>
  C3, as the claim states it, fails: with a capability that raises, the response is the
  empty success with the no-face message, not an error.
\<close>

theorem identify_unavailable_counterexample:
  "identify_client (env_of (Raises ExternalError)) (Some data_url) mixed_db
     = Response (JResults [] (Some no_face_message)) 200"
  by (simp add: identify_client_def identify_try_def probe_faces_def extract_faces_def
      extract_faces_try_def split_data_url data_url_nonempty env_of_def const_represent_def)



text \<open>
  C5: the two empty outcomes differ. A probe without a detected face gets 200 with empty
  results and the no-face message; a probe with a face, against a store of the probe's
  dimensionality in which no descriptor exceeds the threshold, gets 200 with empty results
  and no message.
\<close>

theorem identify_empty_outcomes:
  "(image_b64 \<noteq> [] \<and> probe_faces env image_b64 = Inr [] \<longrightarrow>
      identify_client env (Some image_b64) db = Response (JResults [] (Some no_face_message)) 200)
   \<and> (image_b64 \<noteq> [] \<and> probe_faces env image_b64 = Inr (f # fs)
        \<and> descriptors_consistent db (embedding f)
        \<and> (\<forall>d \<in> set (face_descriptors db). \<not> exceeds_threshold (embedding f) d) \<longrightarrow>
      identify_client env (Some image_b64) db = Response (JResults [] None) 200)"
proof (intro conjI impI)
  assume "image_b64 \<noteq> [] \<and> probe_faces env image_b64 = Inr []"
  then show "identify_client env (Some image_b64) db = Response (JResults [] (Some no_face_message)) 200"
    by (simp add: identify_client_def identify_try_def)
next
  assume h: "image_b64 \<noteq> [] \<and> probe_faces env image_b64 = Inr (f # fs)
        \<and> descriptors_consistent db (embedding f)
        \<and> (\<forall>d \<in> set (face_descriptors db). \<not> exceeds_threshold (embedding f) d)"
  then have none: "filter (exceeds_threshold (embedding f)) (face_descriptors db) = []"
    by (simp add: filter_empty_conv)
  from h have "identify_client env (Some image_b64) db =
           Response (JResults (take 20 (sort_matches
             (map (descriptor_match env db (embedding f))
                  (filter (exceeds_threshold (embedding f)) (face_descriptors db))))) None) 200"
    by (intro identify_client_detected) simp_all
  with none show "identify_client env (Some image_b64) db = Response (JResults [] None) 200"
    by (simp add: sort_matches_def)
qed

theorem identify_empty_outcomes_witness:
  "data_url \<noteq> [] \<and> probe_faces (env_of (Returns [])) data_url = Inr []
   \<and> identify_client (env_of (Returns [])) (Some data_url) far_db
       = Response (JResults [] (Some no_face_message)) 200
   \<and> probe_faces (env_of (Returns [good_face])) data_url =
       Inr [\<lparr>embedding = [1, 0], box = [(''x'', 10), (''y'', 20), (''w'', 30), (''h'', 40)]\<rparr>]
   \<and> descriptors_consistent far_db [1, 0]
   \<and> face_descriptors far_db = [descriptor_3]
   \<and> \<not> exceeds_threshold [1, 0] descriptor_3
   \<and> identify_client (env_of (Returns [good_face])) (Some data_url) far_db
       = Response (JResults [] None) 200"
proof -
  have rows: "face_descriptors far_db = [descriptor_3]"
    by (simp add: far_db_def)
  have below: "\<not> exceeds_threshold [1, 0] descriptor_3"
    by (simp add: exceeds_threshold_def similarity_3)
  from rows below have far: "\<forall>d \<in> set (face_descriptors far_db). \<not> exceeds_threshold [1, 0] d"
    by simp
  from identify_empty_outcomes [of data_url "env_of (Returns [])" far_db]
  have a: "identify_client (env_of (Returns [])) (Some data_url) far_db
       = Response (JResults [] (Some no_face_message)) 200"
    using data_url_nonempty probe_no_face by blast
  from identify_empty_outcomes [of data_url "env_of (Returns [good_face])" far_db
      "\<lparr>embedding = [1, 0], box = [(''x'', 10), (''y'', 20), (''w'', 30), (''h'', 40)]\<rparr>" "[]"]
  have b: "identify_client (env_of (Returns [good_face])) (Some data_url) far_db
       = Response (JResults [] None) 200"
    using data_url_nonempty probe_good_face consistent_concrete(4) far by simp
  from a b rows below show ?thesis
    using data_url_nonempty probe_no_face probe_good_face consistent_concrete(4) by blast
qed

text \<open>
  C10: the results are per descriptor. For a probe with a detected face and a consistent
  store, the list built by the scan has one entry for each descriptor above the threshold,
  in row order, carrying that descriptor's photo reference; the response is that list
  sorted and cut to 20. So a photo with k descriptors above the threshold has k entries
  before the cut: no entry is dropped because its photo already has one.
\<close>

theorem identify_results_per_descriptor:
  assumes "image_b64 \<noteq> []" and "probe_faces env image_b64 = Inr (f # fs)"
    and "descriptors_consistent db (embedding f)"
  shows "\<exists>matches. search_descriptors env db (embedding f) (face_descriptors db) = Inr matches
    \<and> identify_client env (Some image_b64) db
        = Response (JResults (take 20 (sort_matches matches)) None) 200
    \<and> matches = map (descriptor_match env db (embedding f))
                   (filter (exceeds_threshold (embedding f)) (face_descriptors db))
    \<and> map m_photo_id matches
        = map fd_photo_id (filter (exceeds_threshold (embedding f)) (face_descriptors db))
    \<and> (\<forall>p. length (filter (\<lambda>m. m_photo_id m = p) matches)
          = length (filter (\<lambda>d. fd_photo_id d = p \<and> exceeds_threshold (embedding f) d)
              (face_descriptors db)))
    \<and> (length matches \<le> 20 \<longrightarrow>
         (\<forall>p. length (filter (\<lambda>m. m_photo_id m = p) (take 20 (sort_matches matches)))
          = length (filter (\<lambda>d. fd_photo_id d = p \<and> exceeds_threshold (embedding f) d)
              (face_descriptors db))))"
proof -
  let ?t = "embedding f"
  let ?ds = "filter (exceeds_threshold ?t) (face_descriptors db)"
  let ?matches = "map (descriptor_match env db ?t) ?ds"
  have scan: "search_descriptors env db ?t (face_descriptors db) = Inr ?matches"
    using assms(3) unfolding descriptors_consistent_def by (rule search_descriptors_consistent)
  have resp: "identify_client env (Some image_b64) db
        = Response (JResults (take 20 (sort_matches ?matches)) None) 200"
    using assms by (rule identify_client_detected)
  have refs: "map m_photo_id ?matches = map fd_photo_id ?ds"
    by (simp add: descriptor_match_def)
  have count: "length (filter (\<lambda>m. m_photo_id m = p) ?matches)
      = length (filter (\<lambda>d. fd_photo_id d = p \<and> exceeds_threshold ?t d) (face_descriptors db))" for p
  proof -
    have "filter (\<lambda>m. m_photo_id m = p) ?matches
        = map (descriptor_match env db ?t) (filter (\<lambda>d. fd_photo_id d = p) ?ds)"
      by (simp add: filter_map comp_def descriptor_match_def)
    then show ?thesis by (simp add: conj_commute)
  qed
  have kept: "length (filter (\<lambda>m. m_photo_id m = p) (take 20 (sort_matches ?matches)))
      = length (filter (\<lambda>d. fd_photo_id d = p \<and> exceeds_threshold ?t d) (face_descriptors db))"
    if short: "length ?matches \<le> 20" for p
  proof -
    from short have "take 20 (sort_matches ?matches) = sort_matches ?matches"
      by (simp add: sort_matches_def)
    moreover have "mset (filter (\<lambda>m. m_photo_id m = p) (sort_matches ?matches))
        = mset (filter (\<lambda>m. m_photo_id m = p) ?matches)"
      by (simp add: sort_matches_def)
    then have "length (filter (\<lambda>m. m_photo_id m = p) (sort_matches ?matches))
        = length (filter (\<lambda>m. m_photo_id m = p) ?matches)"
      by (rule mset_eq_length)
    ultimately show ?thesis using count [of p] by simp
  qed
  from scan resp refs count kept show ?thesis by blast
qed

theorem identify_results_per_descriptor_witness:
  "data_url \<noteq> []
   \<and> probe_faces (env_of (Returns [good_face])) data_url =
       Inr [\<lparr>embedding = [1, 0], box = [(''x'', 10), (''y'', 20), (''w'', 30), (''h'', 40)]\<rparr>]
   \<and> descriptors_consistent mixed_db [1, 0]
   \<and> search_descriptors (env_of (Returns [good_face])) mixed_db [1, 0] (face_descriptors mixed_db)
       = Inr [match_of_4, match_of_1, match_of_2]
   \<and> identify_client (env_of (Returns [good_face])) (Some data_url) mixed_db
       = Response (JResults [match_of_1, match_of_2, match_of_4] None) 200
   \<and> length (filter (\<lambda>m. m_photo_id m = 7) [match_of_4, match_of_1, match_of_2]) = 2
   \<and> length (filter (\<lambda>d. fd_photo_id d = 7 \<and> exceeds_threshold [1, 0] d) (face_descriptors mixed_db)) = 2"
proof -
  have c: "descriptors_consistent mixed_db
      (embedding \<lparr>embedding = [1, 0], box = [(''x'', 10), (''y'', 20), (''w'', 30), (''h'', 40)]\<rparr>)"
    by (simp add: consistent_concrete)
  have two: "length (filter (\<lambda>m. m_photo_id m = 7) [match_of_4, match_of_1, match_of_2]) = 2"
    by (simp add: match_of_1_def match_of_2_def match_of_4_def)
  from identify_results_per_descriptor [OF data_url_nonempty probe_good_face c]
  obtain matches where m:
    "search_descriptors (env_of (Returns [good_face])) mixed_db [1, 0] (face_descriptors mixed_db) = Inr matches"
    "\<forall>p. length (filter (\<lambda>m. m_photo_id m = p) matches)
          = length (filter (\<lambda>d. fd_photo_id d = p \<and> exceeds_threshold [1, 0] d)
              (face_descriptors mixed_db))"
    by auto
  from m(1) search_mixed_db have "matches = [match_of_4, match_of_1, match_of_2]" by simp
  with m(2) two have "length (filter (\<lambda>d. fd_photo_id d = 7 \<and> exceeds_threshold [1, 0] d)
      (face_descriptors mixed_db)) = 2" by metis
  with two show ?thesis
    using data_url_nonempty probe_good_face consistent_concrete(1) search_mixed_db identify_mixed_db
    by blast
qed

section \<open>The closing\<close>

lemma fold_max_ge_start: "a \<le> fold max xs (a::nat)"
proof (induction xs arbitrary: a)
  case Nil
  then show ?case by simp
next
  case (Cons x xs)
  have "a \<le> max x a" by simp
  also have "\<dots> \<le> fold max xs (max x a)" by (rule Cons.IH)
  finally show ?case by simp
qed

lemma fold_max_ge_member: "x \<in> set xs \<Longrightarrow> x \<le> fold max xs (a::nat)"
proof (induction xs arbitrary: a)
  case Nil
  then show ?case by simp
next
  case (Cons y ys)
  show ?case
  proof (cases "x = y")
    case True
    have "x \<le> max y a" using True by simp
    also have "\<dots> \<le> fold max ys (max y a)" by (rule fold_max_ge_start)
    finally show ?thesis by simp
  next
    case False
    with Cons.prems have "x \<in> set ys" by simp
    then show ?thesis using Cons.IH by simp
  qed
qed

lemma next_id_fresh: "next_id ids \<notin> set ids"
proof
  assume "next_id ids \<in> set ids"
  then have "next_id ids \<le> fold max ids 0" by (rule fold_max_ge_member)
  then show False by (simp add: next_id_def)
qed

lemma tally_items_total:
  "\<forall>i \<in> set items. item_price i \<noteq> None \<Longrightarrow> \<exists>acc'. tally_items items acc = Inr acc'"
proof (induction items arbitrary: acc)
  case Nil
  show ?case by (rule exI [of _ acc]) simp
next
  case (Cons item rest)
  obtain dc pc sp where acc: "acc = (dc, pc, sp)" by (metis prod_cases3)
  from Cons.prems obtain price where price: "item_price item = Some price" by auto
  from Cons.prems have rest: "\<forall>i \<in> set rest. item_price i \<noteq> None" by simp
  show ?case
    unfolding acc tally_items.simps Let_def
    by (simp only: price option.case split: prod.splits) (use Cons.IH [OF rest] in blast)
qed

lemma tally_sales_total:
  "\<forall>s \<in> set ss. \<forall>i \<in> set (sale_items s). item_price i \<noteq> None \<Longrightarrow>
     \<exists>acc'. tally_sales ss acc = Inr acc'"
proof (induction ss arbitrary: acc)
  case Nil
  show ?case by (rule exI [of _ acc]) simp
next
  case (Cons s rest)
  from Cons.prems have "\<forall>i \<in> set (sale_items s). item_price i \<noteq> None" by simp
  from tally_items_total [OF this] obtain acc1 where a1: "tally_items (sale_items s) acc = Inr acc1"
    by blast
  from Cons.prems have "\<forall>s \<in> set rest. \<forall>i \<in> set (sale_items s). item_price i \<noteq> None"
    by simp
  from Cons.IH [OF this] obtain acc2 where "tally_sales rest acc1 = Inr acc2" by blast
  with a1 have "tally_sales (s # rest) acc = Inr acc2" by simp
  then show ?case by (rule exI)
qed

lemma close_day_try_committed:
  assumes "close_day_try fails now u notes db = Inr (rid, db')"
  shows "face_descriptors db' = [] \<and> photos db' = photos db \<and> sales db' = sales db
     \<and> (\<exists>r. eod_reports db' = eod_reports db @ [r]
           \<and> eod_id r = rid \<and> eod_timestamp r = now \<and> eod_closing_user r = username u
           \<and> eod_notes r = notes)
     \<and> rid \<notin> set (map eod_id (eod_reports db))
     \<and> (\<forall>step. fails step = None)"
proof -
  have steps: "(\<forall>step. fails step = None) \<longleftrightarrow>
      fails QueryLastReport = None \<and> fails QuerySales = None
      \<and> fails DeleteDescriptors = None \<and> fails Commit = None"
    by (metis db_step.exhaust)
  have fresh: "next_id (map eod_id (eod_reports db)) \<noteq> eod_id x" if "x \<in> set (eod_reports db)" for x
    using next_id_fresh [of "map eod_id (eod_reports db)"] that by auto
  from assms show ?thesis
    unfolding steps
    by (auto simp: close_day_try_def Let_def fresh
        split: option.splits sum.splits prod.splits)
qed

lemma close_day_try_succeeds:
  assumes "\<forall>step. fails step = None"
    and "\<forall>s \<in> set (sales db). \<forall>i \<in> set (sale_items s). item_price i \<noteq> None"
  shows "\<exists>rid db'. close_day_try fails now u notes db = Inr (rid, db')"
proof -
  let ?since = "case last_eod_timestamp (eod_reports db) of
               None \<Rightarrow> sales db
             | Some t \<Rightarrow> filter (\<lambda>s. sale_timestamp s > t) (sales db)"
  have "set ?since \<subseteq> set (sales db)" by (auto split: option.splits)
  with assms(2) have "\<forall>s \<in> set ?since. \<forall>i \<in> set (sale_items s). item_price i \<noteq> None"
    by blast
  from tally_sales_total [OF this] obtain acc where "tally_sales ?since (0, 0, []) = Inr acc"
    by blast
  then obtain dc pc sp where "tally_sales ?since (0, 0, []) = Inr (dc, pc, sp)"
    by (metis prod_cases3)
  with assms(1) show ?thesis
    by (simp add: close_day_try_def Let_def)
qed

lemma close_day_api_ok:
  assumes "close_day_api fails now user notes db = (Response (JStatusOk rid) 200, db')"
  shows "\<exists>u. user = Some u \<and> role u = ''admin''
     \<and> close_day_try fails now u notes db = Inr (rid, db')"
  using assms
  by (auto simp: close_day_api_def login_required_def split: option.splits if_splits sum.splits)

lemma close_day_api_not_ok:
  assumes "\<forall>rid db'. close_day_api fails now user notes db \<noteq> (Response (JStatusOk rid) 200, db')"
  shows "snd (close_day_api fails now user notes db) = db"
  using assms
  by (auto simp: close_day_api_def login_required_def split: option.splits if_splits sum.splits)

lemma identify_client_empty_store:
  assumes "face_descriptors db = []"
    and "identify_client env image_field db = Response (JResults rs msg) code"
  shows "rs = []"
  using assms
  by (auto simp: identify_client_def identify_try_def sort_matches_def
      split: option.splits if_splits sum.splits list.splits)
subsection \<open>Concrete closings\<close>

lemma lower_concrete: "lower ''digital'' = ''digital''" "lower ''Print'' = ''print''"
  by code_simp+

lemma tally_sale_1:
  "tally_sales [sale_1] (0, 0, []) = Inr (1, 1, [(''Ana'', 15), (''Manual'', 20)])"
  by (simp add: sale_1_def Let_def str_or_def lower_concrete dict_get_def)

lemma close_closing_db:
  "close_day_api no_failure 300 (Some admin_user) ''ok'' closing_db =
     (Response (JStatusOk 1) 200,
      \<lparr>photos = [photo_7, photo_8], face_descriptors = [], sales = [sale_1],
       eod_reports = [report_1]\<rparr>)"
  by (simp add: close_day_api_def login_required_def admin_user_def close_day_try_def
      no_failure_def closing_db_def last_eod_timestamp_def tally_sale_1 next_id_def report_1_def
      Let_def del: tally_sales.simps)
     (simp add: sale_1_def)

lemma close_closing_db_purge_failure:
  "close_day_api purge_failure 300 (Some admin_user) ''ok'' closing_db =
     (Response (JException ExternalError) 500, closing_db)"
  by (simp add: close_day_api_def login_required_def admin_user_def close_day_try_def
      purge_failure_def closing_db_def last_eod_timestamp_def tally_sale_1 Let_def
      del: tally_sales.simps)

lemma process_photo_fresh_db:
  "process_photo_ai (const_represent (Returns [good_face])) 7 ''a.jpg'' fresh_db =
     \<lparr>photos = [photo_7, photo_8],
      face_descriptors = [\<lparr>fd_id = 1, fd_photo_id = 7, fd_vector_json = [1, 0],
                           fd_box_json = [(''x'', 10), (''y'', 20), (''w'', 30), (''h'', 40)]\<rparr>],
      sales = [], eod_reports = []\<rparr>"
  by (simp add: process_photo_ai_def extract_faces_def extract_faces_try_def const_represent_def
      good_face_def dict_get_def fresh_db_def next_id_def)

lemma identify_before_closing:
  "identify_client (env_of (Returns [good_face])) (Some data_url)
     (process_photo_ai (const_represent (Returns [good_face])) 7 ''a.jpg'' fresh_db)
   = Response (JResults [match_of_2] None) 200"
  by (simp add: process_photo_fresh_db identify_client_def identify_try_def data_url_nonempty
      probe_good_face get_similarity_def linalg_norm_def np_dot_def fd_photo_def photo_7_def
      photo_8_def sort_matches_def match_of_2_def)
     (simp add: env_of_def fixed_date_def)

lemma close_after_upload:
  "close_day_api no_failure 300 (Some admin_user) ''ok''
     (process_photo_ai (const_represent (Returns [good_face])) 7 ''a.jpg'' fresh_db)
   = (Response (JStatusOk 1) 200,
      \<lparr>photos = [photo_7, photo_8], face_descriptors = [], sales = [], eod_reports = [report_empty]\<rparr>)"
  by (simp add: process_photo_fresh_db close_day_api_def login_required_def admin_user_def
      close_day_try_def no_failure_def last_eod_timestamp_def next_id_def report_empty_def Let_def)

subsection \<open>The claims on the closing\<close>

text \<open>
  C1: the closing either succeeds or leaves the committed database as it was. When it
  answers 200, the descriptor table is empty and the new closing record, under a key no
  earlier record has, is the last of the records; photos and sales are untouched. In every
  other case, and so whenever a statement fails, nothing was committed: neither the record
  nor the deletion. An admin whose statements all succeed, on sales whose items all have a
  price, gets the 200.
\<close>

theorem close_day_atomic:
  "((\<exists>rid db' r. close_day_api fails now user notes db = (Response (JStatusOk rid) 200, db')
        \<and> face_descriptors db' = [] \<and> eod_reports db' = eod_reports db @ [r]
        \<and> eod_id r = rid \<and> rid \<notin> set (map eod_id (eod_reports db))
        \<and> photos db' = photos db \<and> sales db' = sales db
        \<and> (\<forall>step. fails step = None))
     \<or> ((\<forall>rid db'. close_day_api fails now user notes db \<noteq> (Response (JStatusOk rid) 200, db'))
        \<and> snd (close_day_api fails now user notes db) = db))
   \<and> ((\<exists>step ex. fails step = Some ex) \<longrightarrow>
        (\<forall>rid db'. close_day_api fails now user notes db \<noteq> (Response (JStatusOk rid) 200, db'))
        \<and> snd (close_day_api fails now user notes db) = db)
   \<and> ((\<exists>u. user = Some u \<and> role u = ''admin'') \<and> (\<forall>step. fails step = None)
        \<and> (\<forall>s \<in> set (sales db). \<forall>i \<in> set (sale_items s). item_price i \<noteq> None) \<longrightarrow>
        (\<exists>rid db'. close_day_api fails now user notes db = (Response (JStatusOk rid) 200, db')))"
proof -
  have ok: "face_descriptors db' = [] \<and> (\<exists>r. eod_reports db' = eod_reports db @ [r] \<and> eod_id r = rid)
        \<and> rid \<notin> set (map eod_id (eod_reports db))
        \<and> photos db' = photos db \<and> sales db' = sales db \<and> (\<forall>step. fails step = None)"
    if "close_day_api fails now user notes db = (Response (JStatusOk rid) 200, db')" for rid db'
  proof -
    from close_day_api_ok [OF that] obtain u where
      "close_day_try fails now u notes db = Inr (rid, db')" by blast
    from close_day_try_committed [OF this] show ?thesis by blast
  qed
  have dichotomy: "(\<exists>rid db' r. close_day_api fails now user notes db = (Response (JStatusOk rid) 200, db')
        \<and> face_descriptors db' = [] \<and> eod_reports db' = eod_reports db @ [r]
        \<and> eod_id r = rid \<and> rid \<notin> set (map eod_id (eod_reports db))
        \<and> photos db' = photos db \<and> sales db' = sales db
        \<and> (\<forall>step. fails step = None))
     \<or> ((\<forall>rid db'. close_day_api fails now user notes db \<noteq> (Response (JStatusOk rid) 200, db'))
        \<and> snd (close_day_api fails now user notes db) = db)"
  proof (cases "\<exists>rid db'. close_day_api fails now user notes db = (Response (JStatusOk rid) 200, db')")
    case True
    then obtain rid db' where
      r: "close_day_api fails now user notes db = (Response (JStatusOk rid) 200, db')" by blast
    from ok [OF r] r show ?thesis by blast
  next
    case False
    then have none: "\<forall>rid db'. close_day_api fails now user notes db \<noteq> (Response (JStatusOk rid) 200, db')"
      by blast
    from close_day_api_not_ok [OF none] none show ?thesis by blast
  qed
  have failing: "(\<forall>rid db'. close_day_api fails now user notes db \<noteq> (Response (JStatusOk rid) 200, db'))
        \<and> snd (close_day_api fails now user notes db) = db"
    if f: "\<exists>step ex. fails step = Some ex"
  proof -
    have none: "\<forall>rid db'. close_day_api fails now user notes db \<noteq> (Response (JStatusOk rid) 200, db')"
    proof (intro allI notI)
      fix rid db'
      assume "close_day_api fails now user notes db = (Response (JStatusOk rid) 200, db')"
      from ok [OF this] have "\<forall>step. fails step = None" by blast
      with f show False by auto
    qed
    from close_day_api_not_ok [OF none] none show ?thesis by blast
  qed
  have succeeding: "\<exists>rid db'. close_day_api fails now user notes db = (Response (JStatusOk rid) 200, db')"
    if h: "(\<exists>u. user = Some u \<and> role u = ''admin'') \<and> (\<forall>step. fails step = None)
        \<and> (\<forall>s \<in> set (sales db). \<forall>i \<in> set (sale_items s). item_price i \<noteq> None)"
  proof -
    from h obtain u where u: "user = Some u" "role u = ''admin''" by blast
    from h have "\<forall>step. fails step = None"
      "\<forall>s \<in> set (sales db). \<forall>i \<in> set (sale_items s). item_price i \<noteq> None" by blast+
    from close_day_try_succeeds [OF this] obtain rid db' where
      "close_day_try fails now u notes db = Inr (rid, db')" by blast
    with u show ?thesis by (simp add: close_day_api_def login_required_def)
  qed
  from dichotomy failing succeeding show ?thesis by blast
qed

theorem close_day_atomic_witness:
  "length (face_descriptors closing_db) = 10
   \<and> role admin_user = ''admin''
   \<and> no_failure QueryLastReport = None \<and> no_failure QuerySales = None
   \<and> no_failure DeleteDescriptors = None \<and> no_failure Commit = None
   \<and> sales closing_db = [sale_1] \<and> map item_price (sale_items sale_1) = [Some 15, Some 20]
   \<and> (\<exists>rid db'. close_day_api no_failure 300 (Some admin_user) ''ok'' closing_db
         = (Response (JStatusOk rid) 200, db'))
   \<and> close_day_api no_failure 300 (Some admin_user) ''ok'' closing_db =
       (Response (JStatusOk 1) 200,
        \<lparr>photos = [photo_7, photo_8], face_descriptors = [], sales = [sale_1],
         eod_reports = [report_1]\<rparr>)
   \<and> purge_failure DeleteDescriptors = Some ExternalError
   \<and> close_day_api purge_failure 300 (Some admin_user) ''ok'' closing_db =
       (Response (JException ExternalError) 500, closing_db)
   \<and> snd (close_day_api purge_failure 300 (Some admin_user) ''ok'' closing_db) = closing_db"
proof -
  have f: "\<exists>step ex. purge_failure step = Some ex"
    by (intro exI [of _ DeleteDescriptors] exI [of _ ExternalError]) (simp add: purge_failure_def)
  from close_day_atomic [of purge_failure 300 "Some admin_user" "''ok''" closing_db] f
  have unchanged: "snd (close_day_api purge_failure 300 (Some admin_user) ''ok'' closing_db) = closing_db"
    by blast
  have admin: "\<exists>u. Some admin_user = Some u \<and> role u = ''admin''"
    by (simp add: admin_user_def)
  have steps: "\<forall>step. no_failure step = None"
    by (simp add: no_failure_def)
  have prices: "\<forall>s \<in> set (sales closing_db). \<forall>i \<in> set (sale_items s). item_price i \<noteq> None"
    by (simp add: closing_db_def sale_1_def)
  from close_day_atomic [of no_failure 300 "Some admin_user" "''ok''" closing_db] admin steps prices
  have closed: "\<exists>rid db'. close_day_api no_failure 300 (Some admin_user) ''ok'' closing_db
         = (Response (JStatusOk rid) 200, db')"
    by blast
  have facts: "length (face_descriptors closing_db) = 10" "role admin_user = ''admin''"
    "sales closing_db = [sale_1]" "map item_price (sale_items sale_1) = [Some 15, Some 20]"
    "purge_failure DeleteDescriptors = Some ExternalError"
    by (simp_all add: closing_db_def admin_user_def sale_1_def purge_failure_def)
  from unchanged closed facts steps show ?thesis
    using close_closing_db close_closing_db_purge_failure by blast
qed

text \<open>
  C6: after a closing that answered 200 the descriptor table is empty, so whatever was
  inserted before contributes no match: every identify response that carries results
  carries the empty list, and a probe with a detected face (whatever its embedding) gets
  200 with empty results and no message.
\<close>

theorem purge_then_identify_empty:
  assumes "close_day_api fails now user notes db = (Response (JStatusOk rid) 200, db')"
  shows "face_descriptors db' = []
    \<and> (\<forall>env image_field rs msg code.
          identify_client env image_field db' = Response (JResults rs msg) code \<longrightarrow> rs = [])
    \<and> (\<forall>env image_b64 f fs. image_b64 \<noteq> [] \<and> probe_faces env image_b64 = Inr (f # fs) \<longrightarrow>
          identify_client env (Some image_b64) db' = Response (JResults [] None) 200)"
proof -
  from close_day_api_ok [OF assms] obtain u where
    "close_day_try fails now u notes db = Inr (rid, db')" by blast
  from close_day_try_committed [OF this] have empty: "face_descriptors db' = []" by blast
  have results: "rs = []"
    if "identify_client env image_field db' = Response (JResults rs msg) code"
    for env image_field rs msg code
    using empty that by (rule identify_client_empty_store)
  have detected: "identify_client env (Some image_b64) db' = Response (JResults [] None) 200"
    if "image_b64 \<noteq> [] \<and> probe_faces env image_b64 = Inr (f # fs)" for env image_b64 f fs
    using that empty by (simp add: identify_client_def identify_try_def sort_matches_def)
  from empty results detected show ?thesis by blast
qed

theorem purge_then_identify_empty_witness:
  "identify_client (env_of (Returns [good_face])) (Some data_url)
     (process_photo_ai (const_represent (Returns [good_face])) 7 ''a.jpg'' fresh_db)
     = Response (JResults [match_of_2] None) 200
   \<and> close_day_api no_failure 300 (Some admin_user) ''ok''
       (process_photo_ai (const_represent (Returns [good_face])) 7 ''a.jpg'' fresh_db)
     = (Response (JStatusOk 1) 200,
        \<lparr>photos = [photo_7, photo_8], face_descriptors = [], sales = [], eod_reports = [report_empty]\<rparr>)
   \<and> identify_client (env_of (Returns [good_face])) (Some data_url)
       \<lparr>photos = [photo_7, photo_8], face_descriptors = [], sales = [], eod_reports = [report_empty]\<rparr>
     = Response (JResults [] None) 200"
proof -
  from purge_then_identify_empty [OF close_after_upload]
  have "identify_client (env_of (Returns [good_face])) (Some data_url)
       \<lparr>photos = [photo_7, photo_8], face_descriptors = [], sales = [], eod_reports = [report_empty]\<rparr>
     = Response (JResults [] None) 200"
    using data_url_nonempty probe_good_face by blast
  with identify_before_closing close_after_upload show ?thesis by blast
qed

end
